theory Spec2Isabelle
  imports Main
begin

section \<open>The settings dialog of JB Manager: submission and field updates\<close>

text \<open>
  The development embeds \<^verbatim>\<open>frontend/src/components/settings-model/index.tsx\<close>:
  the state update \<^verbatim>\<open>updateValue\<close> and the asynchronous \<^verbatim>\<open>handleSubmit\<close>
  with its three modes. The collaborators it imports (\<^verbatim>\<open>sendRequest\<close>,
  \<^verbatim>\<open>fetchSecret\<close>), the build-time constant \<^verbatim>\<open>VITE_SERVER_HOST\<close> and the
  runtime's conversion of a number to a string are parameters of the model.
\<close>

subsection \<open>Strings\<close>

text \<open>
  A string is the list of its code units; \<^typ>\<open>char\<close> holds the code units below
  \<^verbatim>\<open>0x100\<close>. \<^verbatim>\<open>String.prototype.trim\<close> strips white space and line terminators
  from both ends: of those, TAB, LF, VT, FF, CR, SP and NBSP are below \<^verbatim>\<open>0x100\<close>.
\<close>

definition isWhiteSpace :: "char \<Rightarrow> bool" where
  "isWhiteSpace c = (of_char c \<in> {9, 10, 11, 12, 13, 32, 160 :: nat})"

definition trim :: "string \<Rightarrow> string" where
  "trim s = rev (dropWhile isWhiteSpace (rev (dropWhile isWhiteSpace s)))"

text \<open>
  \<^verbatim>\<open>s.split(sep)\<close> for a separator of one code unit: the segments between the
  separators, in order; the empty string splits into one empty segment.
\<close>

primrec split :: "char \<Rightarrow> string \<Rightarrow> string list" where
  "split sep [] = [[]]"
| "split sep (c # cs) =
     (if c = sep then [] # split sep cs
      else (case split sep cs of
              [] \<Rightarrow> [[c]]
            | seg # segs \<Rightarrow> (c # seg) # segs))"

text \<open>
  A template literal \<^verbatim>\<open>`${x}`\<close> over a string that may be \<^verbatim>\<open>undefined\<close>
  (\<^const>\<open>None\<close>).
\<close>

definition template :: "string option \<Rightarrow> string" where
  "template x = (case x of None \<Rightarrow> ''undefined'' | Some s \<Rightarrow> s)"

subsection \<open>Field descriptors\<close>

text \<open>
  \<^verbatim>\<open>value: string | number | boolean\<close>. The type \<open>'n\<close> stands for the runtime's
  numbers; their conversion to a string is the parameter \<open>ns\<close> below.
\<close>

datatype 'n jsvalue = VString string | VNumber 'n | VBoolean bool

definition toString :: "('n \<Rightarrow> string) \<Rightarrow> 'n jsvalue \<Rightarrow> string" where
  "toString ns v =
     (case v of
        VString s \<Rightarrow> s
      | VNumber n \<Rightarrow> ns n
      | VBoolean b \<Rightarrow> (if b then ''true'' else ''false''))"

datatype inputType = TString | TNumber | TBoolean | TList | TText

text \<open>
  \<^verbatim>\<open>interface InputConfig\<close>. A property that an object does not have is
  \<^const>\<open>None\<close>: \<^verbatim>\<open>is_secret\<close> and \<^verbatim>\<open>placeholder\<close> are optional, and the entry
  that \<^verbatim>\<open>updateValue\<close> makes for a key the state does not hold has a
  \<^verbatim>\<open>value\<close> only.
\<close>

record 'n InputConfig =
  value' :: "'n jsvalue"
  is_secret :: "bool option"
  type :: "inputType option"
  placeholder :: "string option"
  required :: "bool option"

subsection \<open>Objects\<close>

text \<open>
  An ordinary object is the list of its own enumerable string-keyed properties, in the
  order in which \<^verbatim>\<open>for ... in\<close>, the spread and \<^verbatim>\<open>JSON.stringify\<close> visit them:
  the array indices (canonical decimal numerals up to \<^verbatim>\<open>2^32 - 2\<close>) in ascending
  order, then the other names in the order of their creation.
\<close>

type_synonym 'v object = "(string \<times> 'v) list"

definition isDigit :: "char \<Rightarrow> bool" where
  "isDigit c = (48 \<le> (of_char c :: nat) \<and> (of_char c :: nat) \<le> 57)"

definition digitsValue :: "string \<Rightarrow> nat" where
  "digitsValue s = foldl (\<lambda>n c. 10 * n + (of_char c - 48)) 0 s"

definition arrayIndex :: "string \<Rightarrow> nat option" where
  "arrayIndex p =
     (case p of
        [] \<Rightarrow> None
      | c # cs \<Rightarrow>
          if list_all isDigit p \<and> (c \<noteq> CHR ''0'' \<or> cs = []) \<and> digitsValue p \<le> 4294967294
          then Some (digitsValue p) else None)"

text \<open>\<open>precedes a b\<close>: the property \<open>a\<close>, already there, stays before the new property \<open>b\<close>.\<close>

definition precedes :: "string \<Rightarrow> string \<Rightarrow> bool" where
  "precedes a b =
     (case arrayIndex a of
        Some i \<Rightarrow> (case arrayIndex b of Some j \<Rightarrow> i < j | None \<Rightarrow> True)
      | None \<Rightarrow> arrayIndex b = None)"

definition ownKeys :: "'v object \<Rightarrow> string list" where
  "ownKeys obj = map fst obj"

text \<open>
  The lists that are the properties of some object: no name twice, array indices first and
  ascending.
\<close>

definition propertyOrder :: "string list \<Rightarrow> bool" where
  "propertyOrder ks = sorted_wrt (\<lambda>a b. a \<noteq> b \<and> precedes a b) ks"

text \<open>
  \<^verbatim>\<open>CreateDataProperty\<close>, as a spread and a computed key of an object literal do it:
  an own property of that name keeps its place and takes the value, a new one takes its
  place in the order.
\<close>

definition createDataProperty :: "string \<Rightarrow> 'v \<Rightarrow> 'v object \<Rightarrow> 'v object" where
  "createDataProperty p v obj =
     (if p \<in> set (ownKeys obj)
      then map (\<lambda>(k, x). if k = p then (k, v) else (k, x)) obj
      else takeWhile (\<lambda>(k, x). precedes k p) obj @ (p, v) # dropWhile (\<lambda>(k, x). precedes k p) obj)"

text \<open>
  The assignment \<^verbatim>\<open>obj[p] = v\<close> on an object made by \<^verbatim>\<open>{}\<close>. Without an own
  property \<^verbatim>\<open>__proto__\<close> the assignment to that name reaches the accessor of
  \<^verbatim>\<open>Object.prototype\<close>, which sets or keeps the prototype and stores no property.
\<close>

definition assign :: "string \<Rightarrow> 'v \<Rightarrow> 'v object \<Rightarrow> 'v object" where
  "assign p v obj =
     (if p = ''__proto__'' \<and> p \<notin> set (ownKeys obj) then obj else createDataProperty p v obj)"

text \<open>\<^verbatim>\<open>{ ...src }\<close> continued from the properties \<open>target\<close> the literal has so far.\<close>

definition spread :: "'v object \<Rightarrow> 'v object \<Rightarrow> 'v object" where
  "spread src target = foldl (\<lambda>acc (k, v). createDataProperty k v acc) target src"

text \<open>
  The values that \<^verbatim>\<open>data\<close> holds and \<^verbatim>\<open>JSON.stringify\<close> is given. The request's
  body is kept as this value, not as its text.
\<close>

datatype 'n json =
    JString string
  | JNumber 'n
  | JBoolean bool
  | JArray "'n json list"
  | JObject "(string \<times> 'n json) list"

definition toJson :: "'n jsvalue \<Rightarrow> 'n json" where
  "toJson v = (case v of VString s \<Rightarrow> JString s | VNumber n \<Rightarrow> JNumber n | VBoolean b \<Rightarrow> JBoolean b)"

subsection \<open>The state update\<close>

type_synonym 'n fieldSet = "'n InputConfig object"

text \<open>
  \<^verbatim>\<open>updateValue\<close>, lines 33-41: the function given to \<^verbatim>\<open>setInputElements\<close>, applied
  to the previous state. \<^verbatim>\<open>prevState[key]\<close> for a name the state does not own is
  \<^verbatim>\<open>undefined\<close> or a property of \<^verbatim>\<open>Object.prototype\<close>, neither of which has an
  enumerable property to spread.
\<close>

definition updateValue :: "string \<Rightarrow> 'n jsvalue \<Rightarrow> 'n fieldSet \<Rightarrow> 'n fieldSet" where
  "updateValue key newValue prevState =
     createDataProperty key
       (case map_of prevState key of
          Some d \<Rightarrow> d\<lparr>value' := newValue\<rparr>
        | None \<Rightarrow> \<lparr>value' = newValue, is_secret = None, type = None,
                    placeholder = None, required = None\<rparr>)
       (spread prevState [])"

subsection \<open>Submission\<close>

text \<open>
  What a rejected promise carries, as far as the component reads it:
  \<^verbatim>\<open>error?.body?.detail\<close>, converted by the template literal; \<^const>\<open>None\<close> when the
  chain gives \<^verbatim>\<open>undefined\<close>.
\<close>

datatype thrown = Thrown (detail: "string option")

record 'n request =
  url :: string
  method' :: string
  accessToken :: "string option"
  body :: "'n json"
  headers :: "(string \<times> string) list"

text \<open>
  The collaborators and constants of a run: \<^verbatim>\<open>Number.prototype.toString\<close>,
  \<^verbatim>\<open>import.meta.env.VITE_SERVER_HOST\<close>, the outcome of \<^verbatim>\<open>await fetchSecret()\<close>
  and of \<^verbatim>\<open>await sendRequest(...)\<close> (\<^const>\<open>Inl\<close>: the promise is rejected).
\<close>

record 'n world =
  numberToString :: "'n \<Rightarrow> string"
  APIHOST :: "string option"
  fetchSecret :: "thrown + string"
  sendRequest :: "'n request \<Rightarrow> thrown + unit"

text \<open>The calls that leave the component, in the order they are made.\<close>

datatype 'n event =
    Alert string
  | ConsoleError string thrown
  | FetchSecret
  | SendRequest "'n request"
  | OnClose

datatype error = TypeError

text \<open>
  The test of lines 56, 65, 69 and 86:
  \<^verbatim>\<open>x.required === true && !x.value.toString().trim()\<close>.
\<close>

definition requiredEmpty :: "('n \<Rightarrow> string) \<Rightarrow> 'n InputConfig \<Rightarrow> bool" where
  "requiredEmpty ns x = (required x = Some True \<and> trim (toString ns (value' x)) = [])"

text \<open>
  The loop of lines 55-61. \<^verbatim>\<open>for (let key in inputElements)\<close> visits the names in
  property order, and \<^verbatim>\<open>inputElements[key]\<close> is the descriptor listed with the name.
  \<^const>\<open>Inl\<close> is the message of the alert before \<^verbatim>\<open>return\<close>.
\<close>

fun credentialsLoop ::
  "('n \<Rightarrow> string) \<Rightarrow> 'n fieldSet \<Rightarrow> 'n json object \<Rightarrow> string + 'n json object" where
  "credentialsLoop ns [] credentials = Inr credentials"
| "credentialsLoop ns ((key, x) # rest) credentials =
     (if requiredEmpty ns x then Inl (key @ '' is required'')
      else credentialsLoop ns rest (assign key (toJson (value' x)) credentials))"

text \<open>The loop of lines 85-95.\<close>

fun installLoop ::
  "('n \<Rightarrow> string) \<Rightarrow> 'n fieldSet \<Rightarrow> 'n json object \<Rightarrow> string + 'n json object" where
  "installLoop ns [] data = Inr data"
| "installLoop ns ((key, x) # rest) data =
     (if requiredEmpty ns x then Inl (key @ '' is required'')
      else if type x = Some TList
      then installLoop ns rest
             (assign key
                (JArray (map (\<lambda>item. JString (trim item))
                          (split (CHR '','') (toString ns (value' x)))))
                data)
      else installLoop ns rest (assign key (toJson (value' x)) data))"

text \<open>
  Lines 97-111: the request, then \<^verbatim>\<open>onClose()\<close> or the alert of the \<^verbatim>\<open>catch\<close>.
  The callbacks \<^verbatim>\<open>onClose\<close>, \<^verbatim>\<open>alert\<close> and \<^verbatim>\<open>console.error\<close> are taken to
  return.
\<close>

definition postRequest :: "string \<Rightarrow> string option \<Rightarrow> 'n json \<Rightarrow> 'n request" where
  "postRequest apiEndpoint token data =
     \<lparr>url = apiEndpoint, method' = ''POST'', accessToken = token, body = data,
      headers = [(''Content-Type'', ''application/json'')]\<rparr>"

definition serverMessage :: "thrown \<Rightarrow> string" where
  "serverMessage e =
     ''Error from server '' @ [CHR 0x22] @ template (detail e) @ [CHR 0x22] @ ''. Please try again.''"

definition post :: "'n world \<Rightarrow> string \<Rightarrow> string option \<Rightarrow> 'n json \<Rightarrow> 'n event list" where
  "post w apiEndpoint token data =
     (case sendRequest w (postRequest apiEndpoint token data) of
        Inr u \<Rightarrow> [SendRequest (postRequest apiEndpoint token data), OnClose]
      | Inl e \<Rightarrow>
          [SendRequest (postRequest apiEndpoint token data),
           Alert (serverMessage e),
           ConsoleError ''Error saving settings:'' e])"

text \<open>
  \<^verbatim>\<open>handleSubmit\<close>, lines 48-112, for the props \<^verbatim>\<open>botId\<close> (optional) and
  \<^verbatim>\<open>modelType\<close> and the state \<^verbatim>\<open>inputElements\<close>. \<^const>\<open>Inr\<close> is the trace of
  a run whose promise is fulfilled; \<^const>\<open>Inl\<close> is the \<^verbatim>\<open>TypeError\<close> of reading
  \<^verbatim>\<open>.required\<close> of \<^verbatim>\<open>undefined\<close> in the activate branch, raised before any call.
  In that branch lines 73-75 store \<^verbatim>\<open>phone_number\<close>, then \<^verbatim>\<open>channels\<close>, whose
  object is given its \<^verbatim>\<open>whatsapp\<close>.
\<close>

definition handleSubmit ::
  "'n world \<Rightarrow> string option \<Rightarrow> string \<Rightarrow> 'n fieldSet \<Rightarrow> error + 'n event list" where
  "handleSubmit w botId modelType inputElements =
     (if modelType = ''credentials'' then
        (case credentialsLoop (numberToString w) inputElements [] of
           Inl message \<Rightarrow> Inr [Alert message]
         | Inr credentials \<Rightarrow>
             Inr (post w (template (APIHOST w) @ ''/v1/bot/'' @ template botId @ ''/configure'') None
                    (JObject (assign ''credentials'' (JObject (spread credentials [])) []))))
      else if modelType = ''activate'' then
        (case map_of inputElements ''phone_number'' of
           None \<Rightarrow> Inl TypeError
         | Some phone_number \<Rightarrow>
             if requiredEmpty (numberToString w) phone_number
             then Inr [Alert ''Phone number is required'']
             else
               (case map_of inputElements ''whatsapp'' of
                  None \<Rightarrow> Inl TypeError
                | Some whatsapp \<Rightarrow>
                    if requiredEmpty (numberToString w) whatsapp
                    then Inr [Alert ''Whatsapp Key is required'']
                    else
                      Inr (post w (template (APIHOST w) @ ''/v1/bot/'' @ template botId @ ''/activate'') None
                             (JObject
                                (assign ''channels''
                                   (JObject (assign ''whatsapp'' (toJson (value' whatsapp)) []))
                                   (assign ''phone_number'' (toJson (value' phone_number)) []))))))
      else if modelType = ''install'' then
        (case fetchSecret w of
           Inl e \<Rightarrow>
             Inr [FetchSecret,
                  ConsoleError ''Failed to fetch the access token:'' e,
                  Alert ''Failed to fetch the access token'']
         | Inr token \<Rightarrow>
             (case installLoop (numberToString w) inputElements [] of
                Inl message \<Rightarrow> Inr [FetchSecret, Alert message]
              | Inr data \<Rightarrow>
                  Inr (FetchSecret #
                       post w (template (APIHOST w) @ ''/v1/bot/install'') (Some token) (JObject data))))
      else Inr (post w [] None (JObject [])))"

subsection \<open>Example runs\<close>

text \<open>
  The text of an integer for the example runs: the decimal digits, after a minus sign for
  a negative number. It agrees with \<^verbatim>\<open>Number.prototype.toString\<close> on the integers
  that a number holds exactly (magnitude up to \<^verbatim>\<open>2^53\<close>); a number that is a fraction,
  \<^verbatim>\<open>NaN\<close> or infinite has no counterpart in \<^typ>\<open>int\<close>. The examples use it at
  \<^verbatim>\<open>0\<close> and \<^verbatim>\<open>3\<close>.
\<close>

definition digit :: "nat \<Rightarrow> char" where
  "digit n = ''0123456789'' ! (n mod 10)"

fun showNat :: "nat \<Rightarrow> string" where
  "showNat n = (if n < 10 then [digit n] else showNat (n div 10) @ [digit n])"

declare showNat.simps [simp del]

definition showInt :: "int \<Rightarrow> string" where
  "showInt i = (if i < 0 then CHR ''-'' # showNat (nat (- i)) else showNat (nat i))"

text \<open>A run in which both collaborators succeed, and one in which both fail.\<close>

definition demoWorld :: "int world" where
  "demoWorld =
     \<lparr>numberToString = showInt, APIHOST = Some ''http://localhost:8000'',
      fetchSecret = Inr ''secret-token'', sendRequest = (\<lambda>r. Inr ())\<rparr>"

definition offlineWorld :: "int world" where
  "offlineWorld =
     \<lparr>numberToString = showInt, APIHOST = Some ''http://localhost:8000'',
      fetchSecret = Inl (Thrown None),
      sendRequest = (\<lambda>r. Inl (Thrown (Some ''Bot not found'')))\<rparr>"

definition field :: "'n jsvalue \<Rightarrow> inputType \<Rightarrow> bool \<Rightarrow> 'n InputConfig" where
  "field v t r = \<lparr>value' = v, is_secret = None, type = Some t, placeholder = None, required = Some r\<rparr>"

definition credentialFields :: "int fieldSet" where
  "credentialFields =
     [(''api_key'', field (VString ''x'') TString True),
      (''region'', field (VString ''y'') TString False)]"

definition configureRequest :: "int request" where
  "configureRequest =
     \<lparr>url = ''http://localhost:8000/v1/bot/bot1/configure'', method' = ''POST'',
      accessToken = None,
      body = JObject [(''credentials'',
               JObject [(''api_key'', JString ''x''), (''region'', JString ''y'')])],
      headers = [(''Content-Type'', ''application/json'')]\<rparr>"

section \<open>Properties\<close>

subsection \<open>Strings and objects\<close>

text \<open>A split has a segment: the first case of the \<open>case\<close> in \<^const>\<open>split\<close> is never taken.\<close>

lemma split_not_Nil: "split sep s \<noteq> []"
  by (induction s) (auto split: list.splits)

lemma propertyOrder_appendD:
  "propertyOrder (ks @ [p]) \<Longrightarrow> propertyOrder ks \<and> p \<notin> set ks \<and> (\<forall>a\<in>set ks. precedes a p)"
  by (auto simp: propertyOrder_def sorted_wrt_append)

lemma createDataProperty_new:
  assumes "propertyOrder (ownKeys obj @ [p])"
  shows "createDataProperty p v obj = obj @ [(p, v)]"
proof -
  from assms have fresh: "p \<notin> set (ownKeys obj)"
    and before: "\<forall>a\<in>set (ownKeys obj). precedes a p"
    using propertyOrder_appendD by blast+
  from before have all: "\<forall>e\<in>set obj. (\<lambda>(k, x). precedes k p) e"
    by (auto simp: ownKeys_def)
  then have "takeWhile (\<lambda>(k, x). precedes k p) obj = obj"
    and "dropWhile (\<lambda>(k, x). precedes k p) obj = []"
    by (simp_all add: takeWhile_eq_all_conv)
  with fresh show ?thesis
    by (simp add: createDataProperty_def)
qed

lemma assign_new:
  "propertyOrder (ownKeys obj @ [p]) \<Longrightarrow> p \<noteq> ''__proto__'' \<Longrightarrow> assign p v obj = obj @ [(p, v)]"
  by (simp add: assign_def createDataProperty_new)

lemma spread_append:
  "propertyOrder (ownKeys target @ ownKeys src) \<Longrightarrow> spread src target = target @ src"
proof (induction src arbitrary: target)
  case Nil
  then show ?case by (simp add: spread_def)
next
  case (Cons e src)
  obtain k v where e: "e = (k, v)" by (cases e)
  from Cons.prems have ord: "propertyOrder ((ownKeys target @ [k]) @ ownKeys src)"
    by (simp add: e ownKeys_def)
  then have "propertyOrder (ownKeys target @ [k])"
    by (simp add: propertyOrder_def sorted_wrt_append)
  then have step: "createDataProperty k v target = target @ [(k, v)]"
    by (rule createDataProperty_new)
  have "spread (e # src) target = spread src (createDataProperty k v target)"
    by (simp add: spread_def e)
  also have "\<dots> = spread src (target @ [(k, v)])"
    by (simp add: step)
  also have "\<dots> = (target @ [(k, v)]) @ src"
    using ord by (intro Cons.IH) (simp add: ownKeys_def)
  finally show ?case by (simp add: e)
qed

lemma spread_self: "propertyOrder (ownKeys obj) \<Longrightarrow> spread obj [] = obj"
  using spread_append [of "[]" obj] by (simp add: ownKeys_def)

lemma createDataProperty_own:
  "p \<in> set (ownKeys obj) \<Longrightarrow>
   createDataProperty p v obj = map (\<lambda>(k, x). if k = p then (k, v) else (k, x)) obj"
  by (simp add: createDataProperty_def)

lemma map_of_replace:
  "map_of (map (\<lambda>(k, x). if k = p then (k, f x) else (k, x)) obj) k =
   (if k = p then map_option f (map_of obj k) else map_of obj k)"
  by (induction obj) auto

lemma credentialsLoop_filled:
  assumes "propertyOrder (ownKeys acc @ ownKeys fs)"
    and "''__proto__'' \<notin> set (ownKeys fs)"
    and "\<forall>(k, x)\<in>set fs. \<not> requiredEmpty ns x"
  shows "credentialsLoop ns fs acc = Inr (acc @ map (\<lambda>(k, x). (k, toJson (value' x))) fs)"
  using assms
proof (induction fs arbitrary: acc)
  case Nil
  then show ?case by simp
next
  case (Cons e fs)
  obtain key x where e: "e = (key, x)" by (cases e)
  from Cons.prems(1) have ord: "propertyOrder ((ownKeys acc @ [key]) @ ownKeys fs)"
    by (simp add: e ownKeys_def)
  then have "propertyOrder (ownKeys acc @ [key])"
    by (simp add: propertyOrder_def sorted_wrt_append)
  moreover from Cons.prems(2) have "key \<noteq> ''__proto__''"
    by (auto simp: e ownKeys_def)
  ultimately have step: "assign key v acc = acc @ [(key, v)]" for v
    by (rule assign_new)
  have "credentialsLoop ns fs (acc @ [(key, toJson (value' x))]) =
        Inr ((acc @ [(key, toJson (value' x))]) @ map (\<lambda>(k, x). (k, toJson (value' x))) fs)"
    using ord Cons.prems(2,3) by (intro Cons.IH) (auto simp: ownKeys_def e)
  with Cons.prems(3) show ?case
    by (simp add: e step)
qed

lemma installLoop_filled:
  assumes "propertyOrder (ownKeys acc @ ownKeys fs)"
    and "''__proto__'' \<notin> set (ownKeys fs)"
    and "\<forall>(k, x)\<in>set fs. \<not> requiredEmpty ns x"
  shows "installLoop ns fs acc =
         Inr (acc @ map (\<lambda>(k, x). (k,
                if type x = Some TList
                then JArray (map (\<lambda>item. JString (trim item))
                              (split (CHR '','') (toString ns (value' x))))
                else toJson (value' x))) fs)"
  using assms
proof (induction fs arbitrary: acc)
  case Nil
  then show ?case by simp
next
  case (Cons e fs)
  obtain key x where e: "e = (key, x)" by (cases e)
  define v where "v = (if type x = Some TList
                then JArray (map (\<lambda>item. JString (trim item))
                              (split (CHR '','') (toString ns (value' x))))
                else toJson (value' x))"
  from Cons.prems(1) have ord: "propertyOrder ((ownKeys acc @ [key]) @ ownKeys fs)"
    by (simp add: e ownKeys_def)
  then have "propertyOrder (ownKeys acc @ [key])"
    by (simp add: propertyOrder_def sorted_wrt_append)
  moreover from Cons.prems(2) have "key \<noteq> ''__proto__''"
    by (auto simp: e ownKeys_def)
  ultimately have step: "assign key u acc = acc @ [(key, u)]" for u
    by (rule assign_new)
  have "installLoop ns fs (acc @ [(key, v)]) =
        Inr ((acc @ [(key, v)]) @ map (\<lambda>(k, x). (k,
                if type x = Some TList
                then JArray (map (\<lambda>item. JString (trim item))
                              (split (CHR '','') (toString ns (value' x))))
                else toJson (value' x))) fs)"
    using ord Cons.prems(2,3) by (intro Cons.IH) (auto simp: ownKeys_def e)
  with Cons.prems(3) show ?case
    by (cases "type x = Some TList") (simp_all add: e step v_def)
qed

lemma credentialsLoop_abort:
  "find (\<lambda>(k, x). requiredEmpty ns x) fs = Some (key, d) \<Longrightarrow>
   credentialsLoop ns fs acc = Inl (key @ '' is required'')"
  by (induction fs arbitrary: acc) (auto split: if_splits)

lemma installLoop_abort:
  "find (\<lambda>(k, x). requiredEmpty ns x) fs = Some (key, d) \<Longrightarrow>
   installLoop ns fs acc = Inl (key @ '' is required'')"
  by (induction fs arbitrary: acc) (auto split: if_splits)

lemma credentialsLoop_passes:
  "find (\<lambda>(k, x). requiredEmpty ns x) fs = None \<Longrightarrow> \<exists>c. credentialsLoop ns fs acc = Inr c"
  by (induction fs arbitrary: acc) (auto split: if_splits)

lemma installLoop_passes:
  "find (\<lambda>(k, x). requiredEmpty ns x) fs = None \<Longrightarrow> \<exists>c. installLoop ns fs acc = Inr c"
  by (induction fs arbitrary: acc) (auto split: if_splits)

lemma plain_name [simp]:
  "arrayIndex ''credentials'' = None" "arrayIndex ''phone_number'' = None"
  "arrayIndex ''channels'' = None" "arrayIndex ''whatsapp'' = None"
  by (simp_all add: arrayIndex_def isDigit_def)

lemma assign_first: "p \<noteq> ''__proto__'' \<Longrightarrow> assign p v [] = [(p, v)]"
  by (simp add: assign_def createDataProperty_def ownKeys_def)

lemma installLoop_fold:
  "\<forall>(k, x)\<in>set fs. \<not> requiredEmpty ns x \<Longrightarrow>
   installLoop ns fs data =
   Inr (foldl (\<lambda>data (k, x). assign k
                 (if type x = Some TList
                  then JArray (map (\<lambda>item. JString (trim item))
                                (split (CHR '','') (toString ns (value' x))))
                  else toJson (value' x)) data) data fs)"
  by (induction fs arbitrary: data) auto

lemma assign_proto: "assign ''__proto__'' v [] = []"
  by (simp add: assign_def ownKeys_def)

lemmas evaluation =
  field_def propertyOrder_def ownKeys_def precedes_def arrayIndex_def isDigit_def
  requiredEmpty_def toString_def toJson_def trim_def isWhiteSpace_def template_def
  post_def postRequest_def serverMessage_def demoWorld_def offlineWorld_def

lemmas run = evaluation handleSubmit_def assign_def createDataProperty_def spread_def

lemma handleSubmit_traces:
  assumes "handleSubmit w botId modelType fs = Inr tr"
  shows "(\<exists>message. tr = [Alert message])
       \<or> (modelType \<noteq> ''install'' \<and> (\<exists>u d. tr = post w u None d))
       \<or> (modelType = ''install'' \<and>
            (\<exists>e. fetchSecret w = Inl e \<and>
                 tr = [FetchSecret, ConsoleError ''Failed to fetch the access token:'' e,
                       Alert ''Failed to fetch the access token'']))
       \<or> (modelType = ''install'' \<and>
            (\<exists>token message. fetchSecret w = Inr token \<and> tr = [FetchSecret, Alert message]))
       \<or> (modelType = ''install'' \<and>
            (\<exists>token u d. fetchSecret w = Inr token \<and> tr = FetchSecret # post w u (Some token) d))"
  using assms unfolding handleSubmit_def
  by (auto split: if_splits sum.splits option.splits)

lemma post_sent:
  "SendRequest req \<in> set (post w u t d) \<Longrightarrow> req = postRequest u t d"
  by (auto simp: post_def split: sum.splits)

lemma post_fulfilled:
  "sendRequest w (postRequest u t d) = Inr x \<Longrightarrow>
   post w u t d = [SendRequest (postRequest u t d), OnClose]"
  by (simp add: post_def)

lemma post_rejected:
  "sendRequest w (postRequest u t d) = Inl e \<Longrightarrow>
   post w u t d = [SendRequest (postRequest u t d), Alert (serverMessage e),
                   ConsoleError ''Error saving settings:'' e]"
  by (simp add: post_def)

lemma propertyOrder_distinct: "propertyOrder ks \<Longrightarrow> distinct ks"
  by (induction ks) (auto simp: propertyOrder_def)

lemma map_of_mapped:
  "distinct (map fst fs) \<Longrightarrow> (k, x) \<in> set fs \<Longrightarrow>
   map_of (map (\<lambda>(k, x). (k, f x)) fs) k = Some (f x)"
  by (induction fs) (auto simp: rev_image_eqI)

lemma post_not_alert: "post w u t d \<noteq> [Alert message]"
  by (simp add: post_def split: sum.splits)

lemma find_requiredEmpty_None:
  "(find (\<lambda>(k, x). requiredEmpty ns x) fs = None) =
   (\<not> (\<exists>(k, x)\<in>set fs. required x = Some True \<and> trim (toString ns (value' x)) = []))"
  by (auto simp: find_None_iff requiredEmpty_def)

lemma trim_boolean: "trim (toString ns (VBoolean b)) \<noteq> []"
  by (simp add: toString_def trim_def isWhiteSpace_def)

subsection \<open>The state update\<close>

text \<open>
  C8. For every Field Set and every key it holds, \<^verbatim>\<open>updateValue(key, newValue)\<close>
  gives the old Field Set with the \<^verbatim>\<open>value\<close> of the named field replaced by
  \<open>newValue\<close>: the names and their order are the same, every other name maps to the
  descriptor it had, and the named field keeps its \<^verbatim>\<open>type\<close>, \<^verbatim>\<open>required\<close>,
  \<^verbatim>\<open>is_secret\<close> and \<^verbatim>\<open>placeholder\<close>. A Field Set is the property list of an
  object (\<^const>\<open>propertyOrder\<close>).
\<close>

theorem updateValue_frame:
  assumes "propertyOrder (ownKeys fs)" and "map_of fs key = Some d"
  shows "updateValue key newValue fs =
           map (\<lambda>(k, x). if k = key then (k, x\<lparr>value' := newValue\<rparr>) else (k, x)) fs
       \<and> ownKeys (updateValue key newValue fs) = ownKeys fs
       \<and> (\<forall>k. k \<noteq> key \<longrightarrow> map_of (updateValue key newValue fs) k = map_of fs k)
       \<and> (\<exists>d'. map_of (updateValue key newValue fs) key = Some d'
              \<and> value' d' = newValue \<and> type d' = type d \<and> required d' = required d
              \<and> is_secret d' = is_secret d \<and> placeholder d' = placeholder d)"
proof -
  have own: "key \<in> set (ownKeys fs)"
    using assms(2) by (auto simp: ownKeys_def dest: map_of_SomeD intro: rev_image_eqI)
  have distinct: "distinct (map fst fs)"
    using assms(1) propertyOrder_distinct by (auto simp: ownKeys_def)
  have same: "(k, x) \<in> set fs \<Longrightarrow> k = key \<Longrightarrow> x = d" for k x
    using distinct assms(2) by simp
  have "updateValue key newValue fs = createDataProperty key (d\<lparr>value' := newValue\<rparr>) fs"
    by (simp add: updateValue_def assms spread_self)
  also have "\<dots> = map (\<lambda>(k, x). if k = key then (k, d\<lparr>value' := newValue\<rparr>) else (k, x)) fs"
    using own by (rule createDataProperty_own)
  also have "\<dots> = map (\<lambda>(k, x). if k = key then (k, x\<lparr>value' := newValue\<rparr>) else (k, x)) fs"
    by (rule map_cong) (auto dest: same)
  finally have eq: "updateValue key newValue fs =
      map (\<lambda>(k, x). if k = key then (k, x\<lparr>value' := newValue\<rparr>) else (k, x)) fs" .
  have keys: "ownKeys (updateValue key newValue fs) = ownKeys fs"
    unfolding eq ownKeys_def by (induction fs) auto
  have look: "map_of (updateValue key newValue fs) k =
      (if k = key then map_option (\<lambda>x. x\<lparr>value' := newValue\<rparr>) (map_of fs k) else map_of fs k)" for k
    unfolding eq by (rule map_of_replace)
  show ?thesis
    using eq keys look assms(2) by simp
qed

theorem updateValue_frame_witness:
  "updateValue ''region'' (VString ''eu'')
     [(''api_key'', field (VString ''x'') TString True),
      (''region'', field (VString ''y'') TString False)] =
   ([(''api_key'', field (VString ''x'') TString True),
     (''region'', field (VString ''eu'') TString False)] :: int fieldSet)"
  using updateValue_frame [of "[(''api_key'', field (VString ''x'') TString True),
      (''region'', field (VString ''y'') TString False)] :: int fieldSet" "''region''"
      "field (VString ''y'') TString False" "VString ''eu''"]
  by (simp add: evaluation)

text \<open>
  For a key the state does not hold, the new entry has a \<^verbatim>\<open>value\<close> only and takes
  its place in the property order.
\<close>

lemma updateValue_new_key:
  "updateValue ''7'' (VString ''v'') [(''10'', field (VNumber (1::int)) TNumber True),
                                     (''name'', field (VString ''bot'') TString True)] =
   [(''7'', \<lparr>value' = VString ''v'', is_secret = None, type = None, placeholder = None,
              required = None\<rparr>),
    (''10'', field (VNumber 1) TNumber True),
    (''name'', field (VString ''bot'') TString True)]"
  by (simp add: updateValue_def run digitsValue_def)

subsection \<open>Request bodies\<close>

text \<open>
  In credentials mode, for every Field Set that passes the required-field check and whose
  names are the property list of an object, none of them \<^verbatim>\<open>__proto__\<close>, the request
  is sent with the body \<^verbatim>\<open>{ credentials: c }\<close> where \<open>c\<close> maps each field name to
  that field's value, unchanged. For the fields \<^verbatim>\<open>{api_key: "x", region: "y"}\<close> the
  body is \<^verbatim>\<open>{ credentials: { api_key: "x", region: "y" } }\<close>.
\<close>

lemma credentials_body:
  assumes "propertyOrder (ownKeys fs)"
    and "''__proto__'' \<notin> set (ownKeys fs)"
    and "\<forall>(k, x)\<in>set fs. \<not> requiredEmpty (numberToString w) x"
  shows "handleSubmit w botId ''credentials'' fs =
         Inr (post w (template (APIHOST w) @ ''/v1/bot/'' @ template botId @ ''/configure'') None
                (JObject [(''credentials'', JObject (map (\<lambda>(k, x). (k, toJson (value' x))) fs))]))"
proof -
  let ?c = "map (\<lambda>(k, x). (k, toJson (value' x))) fs"
  have loop: "credentialsLoop (numberToString w) fs [] = Inr ?c"
    using credentialsLoop_filled [of "[]" fs "numberToString w"] assms by (simp add: ownKeys_def)
  have "ownKeys ?c = ownKeys fs"
    by (induction fs) (auto simp: ownKeys_def)
  with assms(1) have "spread ?c [] = ?c"
    by (simp add: spread_self)
  with loop show ?thesis
    by (simp add: handleSubmit_def assign_first)
qed

lemma credentials_body_example:
  "handleSubmit demoWorld (Some ''bot1'') ''credentials''
     [(''api_key'', field (VString ''x'') TString True),
      (''region'', field (VString ''y'') TString False)] =
   Inr [SendRequest
          \<lparr>url = ''http://localhost:8000/v1/bot/bot1/configure'', method' = ''POST'',
           accessToken = None,
           body = JObject [(''credentials'',
                    JObject [(''api_key'', JString ''x''), (''region'', JString ''y'')])],
           headers = [(''Content-Type'', ''application/json'')]\<rparr>,
        OnClose]"
  using credentials_body [of "[(''api_key'', field (VString ''x'') TString True),
      (''region'', field (VString ''y'') TString False)]" demoWorld "Some ''bot1''"]
  by (simp add: evaluation)

text \<open>
  C3. In credentials mode the body of the request is to be \<^verbatim>\<open>{ credentials: c }\<close>
  with \<open>c\<close> mapping each field name to that field's value, for every Field Set that
  passes the required-field check. A field named \<^verbatim>\<open>__proto__\<close> (an own property of
  the state, as \<^verbatim>\<open>JSON.parse\<close> and the computed key of \<^verbatim>\<open>updateValue\<close> make
  it) is enumerated by the loop and passes the check, but the assignment
  \<^verbatim>\<open>credentials[key] = ...\<close> of line 60 stores nothing for it: the body is
  \<^verbatim>\<open>{ credentials: {} }\<close> and the field's value is not sent.
\<close>

theorem credentials_proto_field_dropped:
  "handleSubmit demoWorld (Some ''bot1'') ''credentials''
     [(''__proto__'', field (VString ''x'') TString False)] =
   Inr [SendRequest
          \<lparr>url = ''http://localhost:8000/v1/bot/bot1/configure'', method' = ''POST'',
           accessToken = None,
           body = JObject [(''credentials'', JObject [])],
           headers = [(''Content-Type'', ''application/json'')]\<rparr>,
        OnClose]"
  by (simp add: run)

text \<open>
  C4. In activate mode, for every Field Set whose \<^verbatim>\<open>phone_number\<close> and
  \<^verbatim>\<open>whatsapp\<close> fields pass the required-and-non-empty check, the body of the request
  is \<^verbatim>\<open>{ phone_number: v, channels: { whatsapp: u } }\<close> for their values \<open>v\<close> and
  \<open>u\<close>, and nothing else. For \<^verbatim>\<open>phone_number = "123"\<close> and
  \<^verbatim>\<open>whatsapp = "key1"\<close> it is
  \<^verbatim>\<open>{ phone_number: "123", channels: { whatsapp: "key1" } }\<close>.
\<close>

theorem activate_body:
  assumes "map_of fs ''phone_number'' = Some p"
    and "map_of fs ''whatsapp'' = Some wa"
    and "\<not> requiredEmpty (numberToString w) p"
    and "\<not> requiredEmpty (numberToString w) wa"
  shows "handleSubmit w botId ''activate'' fs =
         Inr (post w (template (APIHOST w) @ ''/v1/bot/'' @ template botId @ ''/activate'') None
                (JObject [(''phone_number'', toJson (value' p)),
                          (''channels'', JObject [(''whatsapp'', toJson (value' wa))])]))"
proof -
  have "assign ''channels'' v [(''phone_number'', u)] = [(''phone_number'', u), (''channels'', v)]"
    for u v :: "'a json"
    by (simp add: assign_def createDataProperty_def ownKeys_def precedes_def)
  then show ?thesis
    using assms by (simp add: handleSubmit_def assign_first)
qed

theorem activate_body_witness:
  "handleSubmit demoWorld (Some ''bot1'') ''activate''
     [(''phone_number'', field (VString ''123'') TString True),
      (''whatsapp'', field (VString ''key1'') TString True)] =
   Inr [SendRequest
          \<lparr>url = ''http://localhost:8000/v1/bot/bot1/activate'', method' = ''POST'',
           accessToken = None,
           body = JObject [(''phone_number'', JString ''123''),
                           (''channels'', JObject [(''whatsapp'', JString ''key1'')])],
           headers = [(''Content-Type'', ''application/json'')]\<rparr>,
        OnClose]"
  using activate_body [of "[(''phone_number'', field (VString ''123'') TString True),
      (''whatsapp'', field (VString ''key1'') TString True)]"
      "field (VString ''123'') TString True" "field (VString ''key1'') TString True"
      demoWorld "Some ''bot1''"]
  by (simp add: evaluation)

text \<open>
  In install mode, once the access token is fetched and the required-field check is
  passed, the loop assigns to \<^verbatim>\<open>data[key]\<close>, for every field of type
  \<^verbatim>\<open>list\<close>, the sequence of the segments of its stringified value between the commas,
  each trimmed, in order and with the empty segments kept, and for every field of another
  type its value unchanged. Where the names are the property list of an object, none of
  them \<^verbatim>\<open>__proto__\<close>, the body is that value under each field's name. The value
  \<^verbatim>\<open>"a, b ,c"\<close> is sent as \<^verbatim>\<open>["a","b","c"]\<close>, and \<^verbatim>\<open>"a,"\<close> as
  \<^verbatim>\<open>["a",""]\<close>.
\<close>

lemma install_serialization:
  assumes "\<forall>(k, x)\<in>set fs. \<not> requiredEmpty (numberToString w) x"
    and "fetchSecret w = Inr token"
  shows "handleSubmit w botId ''install'' fs =
         Inr (FetchSecret #
              post w (template (APIHOST w) @ ''/v1/bot/install'') (Some token)
                (JObject (foldl (\<lambda>data (k, x). assign k
                   (if type x = Some TList
                    then JArray (map (\<lambda>item. JString (trim item))
                                  (split (CHR '','') (toString (numberToString w) (value' x))))
                    else toJson (value' x)) data) [] fs)))
       \<and> (propertyOrder (ownKeys fs) \<and> ''__proto__'' \<notin> set (ownKeys fs) \<longrightarrow>
            foldl (\<lambda>data (k, x). assign k
                   (if type x = Some TList
                    then JArray (map (\<lambda>item. JString (trim item))
                                  (split (CHR '','') (toString (numberToString w) (value' x))))
                    else toJson (value' x)) data) [] fs =
            map (\<lambda>(k, x). (k,
                   if type x = Some TList
                   then JArray (map (\<lambda>item. JString (trim item))
                                 (split (CHR '','') (toString (numberToString w) (value' x))))
                   else toJson (value' x))) fs)
       \<and> map trim (split (CHR '','') ''a, b ,c'') = [''a'', ''b'', ''c'']
       \<and> map trim (split (CHR '','') ''a,'') = [''a'', []]"
proof (intro conjI impI)
  let ?ns = "numberToString w"
  show "handleSubmit w botId ''install'' fs =
         Inr (FetchSecret #
              post w (template (APIHOST w) @ ''/v1/bot/install'') (Some token)
                (JObject (foldl (\<lambda>data (k, x). assign k
                   (if type x = Some TList
                    then JArray (map (\<lambda>item. JString (trim item))
                                  (split (CHR '','') (toString ?ns (value' x))))
                    else toJson (value' x)) data) [] fs)))"
    using assms by (simp add: handleSubmit_def installLoop_fold)
  show "map trim (split (CHR '','') ''a, b ,c'') = [''a'', ''b'', ''c'']"
    and "map trim (split (CHR '','') ''a,'') = [''a'', []]"
    by (simp_all add: trim_def isWhiteSpace_def)
  assume "propertyOrder (ownKeys fs) \<and> ''__proto__'' \<notin> set (ownKeys fs)"
  then have "installLoop ?ns fs [] =
        Inr (map (\<lambda>(k, x). (k,
                   if type x = Some TList
                   then JArray (map (\<lambda>item. JString (trim item))
                                 (split (CHR '','') (toString ?ns (value' x))))
                   else toJson (value' x))) fs)"
    using installLoop_filled [of "[]" fs ?ns] assms(1) by (simp add: ownKeys_def)
  then show "foldl (\<lambda>data (k, x). assign k
                   (if type x = Some TList
                    then JArray (map (\<lambda>item. JString (trim item))
                                  (split (CHR '','') (toString ?ns (value' x))))
                    else toJson (value' x)) data) [] fs =
            map (\<lambda>(k, x). (k,
                   if type x = Some TList
                   then JArray (map (\<lambda>item. JString (trim item))
                                 (split (CHR '','') (toString ?ns (value' x))))
                   else toJson (value' x))) fs"
    using assms(1) by (simp add: installLoop_fold)
qed

lemma install_serialization_example:
  "handleSubmit demoWorld None ''install''
     [(''tags'', field (VString ''a, b ,c'') TList True),
      (''name'', field (VString ''bot'') TString True),
      (''retries'', field (VNumber 3) TNumber False)] =
   Inr [FetchSecret,
        SendRequest
          \<lparr>url = ''http://localhost:8000/v1/bot/install'', method' = ''POST'',
           accessToken = Some ''secret-token'',
           body = JObject [(''tags'', JArray [JString ''a'', JString ''b'', JString ''c'']),
                           (''name'', JString ''bot''), (''retries'', JNumber 3)],
           headers = [(''Content-Type'', ''application/json'')]\<rparr>,
        OnClose]"
  using install_serialization [of "[(''tags'', field (VString ''a, b ,c'') TList True),
      (''name'', field (VString ''bot'') TString True),
      (''retries'', field (VNumber 3) TNumber False)]" demoWorld "''secret-token''" None]
  by (simp add: run showInt_def showNat.simps digit_def)

text \<open>
  C5. In install mode every field of type \<^verbatim>\<open>list\<close> is to be serialized as the
  sequence of the trimmed segments of its stringified value between the commas, and every
  field of another type is to be passed through with its value unchanged. A field named
  \<^verbatim>\<open>__proto__\<close> is enumerated by the loop of lines 85-95 and passes the check, but
  the assignments \<^verbatim>\<open>data[key] = ...\<close> of lines 91 and 94 store nothing for it, as
  line 60 does in credentials mode. Of the list-typed \<^verbatim>\<open>__proto__\<close> with the value
  \<^verbatim>\<open>"a, b ,c"\<close> and the field \<^verbatim>\<open>name\<close> the body holds \<^verbatim>\<open>name\<close> only: no
  sequence is sent. Of the string-typed \<^verbatim>\<open>__proto__\<close> alone the body is
  \<^verbatim>\<open>{}\<close>: the value is not passed through.
\<close>

theorem install_proto_field_dropped:
  "handleSubmit demoWorld None ''install''
     [(''__proto__'', field (VString ''a, b ,c'') TList True),
      (''name'', field (VString ''bot'') TString True)] =
   Inr [FetchSecret,
        SendRequest
          \<lparr>url = ''http://localhost:8000/v1/bot/install'', method' = ''POST'',
           accessToken = Some ''secret-token'',
           body = JObject [(''name'', JString ''bot'')],
           headers = [(''Content-Type'', ''application/json'')]\<rparr>,
        OnClose]
   \<and> handleSubmit demoWorld None ''install''
     [(''__proto__'', field (VString ''x'') TString False)] =
   Inr [FetchSecret,
        SendRequest
          \<lparr>url = ''http://localhost:8000/v1/bot/install'', method' = ''POST'',
           accessToken = Some ''secret-token'',
           body = JObject [],
           headers = [(''Content-Type'', ''application/json'')]\<rparr>,
        OnClose]"
  by (simp add: run)

text \<open>
  A Field Set whose required fields are all filled is not always sent whole: in activate
  mode the body holds \<^verbatim>\<open>phone_number\<close> and \<^verbatim>\<open>whatsapp\<close> only, and the value
  of the field \<^verbatim>\<open>note\<close> below is left out.
\<close>

theorem extra_field_is_not_sent:
  "\<not> requiredEmpty (numberToString demoWorld) (field (VString ''123'') TString True)
   \<and> \<not> requiredEmpty (numberToString demoWorld) (field (VString ''key1'') TString True)
   \<and> \<not> requiredEmpty (numberToString demoWorld) (field (VString ''hello'') TString True)
   \<and> handleSubmit demoWorld (Some ''bot1'') ''activate''
       [(''phone_number'', field (VString ''123'') TString True),
        (''whatsapp'', field (VString ''key1'') TString True),
        (''note'', field (VString ''hello'') TString True)] =
     Inr [SendRequest
            \<lparr>url = ''http://localhost:8000/v1/bot/bot1/activate'', method' = ''POST'',
             accessToken = None,
             body = JObject [(''phone_number'', JString ''123''),
                             (''channels'', JObject [(''whatsapp'', JString ''key1'')])],
             headers = [(''Content-Type'', ''application/json'')]\<rparr>,
          OnClose]"
  by (simp add: run)

text \<open>
  C1, as the code has it. For every Field Set in which every required field has a
  non-empty value after stringifying and trimming, and whose names are the property list
  of an object, none of them \<^verbatim>\<open>__proto__\<close>: in credentials mode, and in install mode
  once the access token is fetched, \<^verbatim>\<open>handleSubmit\<close> raises no validation alert and
  sends a body that holds a value under the name of every field (under
  \<^verbatim>\<open>credentials\<close> the field's value; at top level in install mode the field's value,
  or its list of trimmed segments for type \<^verbatim>\<open>list\<close>); in activate mode, when the
  Field Set holds \<^verbatim>\<open>phone_number\<close> and \<^verbatim>\<open>whatsapp\<close>, it raises no validation
  alert and sends a body of exactly these two values, whatever other fields there are.
\<close>

theorem filled_fields_are_sent:
  assumes "propertyOrder (ownKeys fs)"
    and "''__proto__'' \<notin> set (ownKeys fs)"
    and "\<forall>(k, x)\<in>set fs. \<not> requiredEmpty (numberToString w) x"
  shows "(\<exists>c. handleSubmit w botId ''credentials'' fs =
               Inr (post w (template (APIHOST w) @ ''/v1/bot/'' @ template botId @ ''/configure'')
                      None (JObject [(''credentials'', JObject c)]))
            \<and> ownKeys c = ownKeys fs
            \<and> (\<forall>(k, x)\<in>set fs. map_of c k = Some (toJson (value' x))))
       \<and> (\<forall>token. fetchSecret w = Inr token \<longrightarrow>
            (\<exists>data. handleSubmit w botId ''install'' fs =
                    Inr (FetchSecret #
                         post w (template (APIHOST w) @ ''/v1/bot/install'') (Some token)
                           (JObject data))
                 \<and> ownKeys data = ownKeys fs
                 \<and> (\<forall>(k, x)\<in>set fs. map_of data k =
                       Some (if type x = Some TList
                             then JArray (map (\<lambda>item. JString (trim item))
                                           (split (CHR '','')
                                              (toString (numberToString w) (value' x))))
                             else toJson (value' x)))))
       \<and> (\<forall>p wa. map_of fs ''phone_number'' = Some p \<longrightarrow> map_of fs ''whatsapp'' = Some wa \<longrightarrow>
            handleSubmit w botId ''activate'' fs =
            Inr (post w (template (APIHOST w) @ ''/v1/bot/'' @ template botId @ ''/activate'') None
                   (JObject [(''phone_number'', toJson (value' p)),
                             (''channels'', JObject [(''whatsapp'', toJson (value' wa))])])))"
proof (intro conjI allI impI)
  let ?ns = "numberToString w"
  have distinct: "distinct (map fst fs)"
    using assms(1) propertyOrder_distinct by (auto simp: ownKeys_def)
  let ?c = "map (\<lambda>(k, x). (k, toJson (value' x))) fs"
  have loop: "credentialsLoop ?ns fs [] = Inr ?c"
    using credentialsLoop_filled [of "[]" fs ?ns] assms by (simp add: ownKeys_def)
  have keys: "ownKeys ?c = ownKeys fs"
    by (induction fs) (auto simp: ownKeys_def)
  with assms(1) have "spread ?c [] = ?c"
    by (simp add: spread_self)
  with loop have "handleSubmit w botId ''credentials'' fs =
      Inr (post w (template (APIHOST w) @ ''/v1/bot/'' @ template botId @ ''/configure'')
             None (JObject [(''credentials'', JObject ?c)]))"
    by (simp add: handleSubmit_def assign_first)
  moreover have "\<forall>(k, x)\<in>set fs. map_of ?c k = Some (toJson (value' x))"
    using distinct by (auto simp: map_of_mapped)
  ultimately show "\<exists>c. handleSubmit w botId ''credentials'' fs =
               Inr (post w (template (APIHOST w) @ ''/v1/bot/'' @ template botId @ ''/configure'')
                      None (JObject [(''credentials'', JObject c)]))
            \<and> ownKeys c = ownKeys fs
            \<and> (\<forall>(k, x)\<in>set fs. map_of c k = Some (toJson (value' x)))"
    using keys by blast
  fix token
  assume token: "fetchSecret w = Inr token"
  let ?f = "\<lambda>x. if type x = Some TList
                 then JArray (map (\<lambda>item. JString (trim item))
                               (split (CHR '','') (toString ?ns (value' x))))
                 else toJson (value' x)"
  let ?data = "map (\<lambda>(k, x). (k, ?f x)) fs"
  have "installLoop ?ns fs [] = Inr ?data"
    using installLoop_filled [of "[]" fs ?ns] assms by (simp add: ownKeys_def)
  with token have "handleSubmit w botId ''install'' fs =
      Inr (FetchSecret #
           post w (template (APIHOST w) @ ''/v1/bot/install'') (Some token) (JObject ?data))"
    by (simp add: handleSubmit_def)
  moreover have "ownKeys ?data = ownKeys fs"
    by (induction fs) (auto simp: ownKeys_def)
  moreover have "\<forall>(k, x)\<in>set fs. map_of ?data k = Some (?f x)"
    using distinct map_of_mapped [of fs _ _ ?f] by blast
  ultimately show "\<exists>data. handleSubmit w botId ''install'' fs =
                    Inr (FetchSecret #
                         post w (template (APIHOST w) @ ''/v1/bot/install'') (Some token)
                           (JObject data))
                 \<and> ownKeys data = ownKeys fs
                 \<and> (\<forall>(k, x)\<in>set fs. map_of data k = Some (?f x))"
    by blast
next
  fix p wa
  assume p: "map_of fs ''phone_number'' = Some p" and wa: "map_of fs ''whatsapp'' = Some wa"
  from p wa have "(''phone_number'', p) \<in> set fs" and "(''whatsapp'', wa) \<in> set fs"
    by (auto dest: map_of_SomeD)
  with assms(3) have "\<not> requiredEmpty (numberToString w) p" and "\<not> requiredEmpty (numberToString w) wa"
    by auto
  moreover
  have "assign ''channels'' v [(''phone_number'', u)] = [(''phone_number'', u), (''channels'', v)]"
    for u v :: "'a json"
    by (simp add: assign_def createDataProperty_def ownKeys_def precedes_def)
  ultimately show "handleSubmit w botId ''activate'' fs =
            Inr (post w (template (APIHOST w) @ ''/v1/bot/'' @ template botId @ ''/activate'') None
                   (JObject [(''phone_number'', toJson (value' p)),
                             (''channels'', JObject [(''whatsapp'', toJson (value' wa))])]))"
    using p wa by (simp add: handleSubmit_def assign_first)
qed

theorem filled_fields_are_sent_witness:
  "handleSubmit demoWorld (Some ''bot1'') ''credentials'' credentialFields =
     Inr [SendRequest configureRequest, OnClose]
   \<and> handleSubmit demoWorld (Some ''bot1'') ''install'' credentialFields =
     Inr [FetchSecret,
          SendRequest
            \<lparr>url = ''http://localhost:8000/v1/bot/install'', method' = ''POST'',
             accessToken = Some ''secret-token'',
             body = JObject [(''api_key'', JString ''x''), (''region'', JString ''y'')],
             headers = [(''Content-Type'', ''application/json'')]\<rparr>,
          OnClose]
   \<and> handleSubmit demoWorld (Some ''bot1'') ''activate''
       [(''phone_number'', field (VString ''123'') TString True),
        (''whatsapp'', field (VString ''key1'') TString True)] =
     Inr [SendRequest
            \<lparr>url = ''http://localhost:8000/v1/bot/bot1/activate'', method' = ''POST'',
             accessToken = None,
             body = JObject [(''phone_number'', JString ''123''),
                             (''channels'', JObject [(''whatsapp'', JString ''key1'')])],
             headers = [(''Content-Type'', ''application/json'')]\<rparr>,
          OnClose]"
proof -
  have order: "propertyOrder (ownKeys credentialFields)"
    and names: "''__proto__'' \<notin> set (ownKeys credentialFields)"
    and filled: "\<forall>(k, x)\<in>set credentialFields. \<not> requiredEmpty (numberToString demoWorld) x"
    by (simp_all add: evaluation credentialFields_def)
  from filled_fields_are_sent [OF order names filled, of "Some ''bot1''"]
  obtain c where "handleSubmit demoWorld (Some ''bot1'') ''credentials'' credentialFields =
      Inr (post demoWorld
             (template (APIHOST demoWorld) @ ''/v1/bot/'' @ template (Some ''bot1'') @ ''/configure'')
             None (JObject [(''credentials'', JObject c)]))"
    by blast
  then have "\<exists>r. handleSubmit demoWorld (Some ''bot1'') ''credentials'' credentialFields =
      Inr [SendRequest r, OnClose]"
    by (simp add: post_def demoWorld_def)
  then show ?thesis
    by (simp add: run credentialFields_def configureRequest_def)
qed

text \<open>
  In activate mode a Field Set without \<^verbatim>\<open>phone_number\<close>, or without
  \<^verbatim>\<open>whatsapp\<close> once \<^verbatim>\<open>phone_number\<close> has passed, ends the run with a
  \<^verbatim>\<open>TypeError\<close> before any call.
\<close>

lemma activate_without_key:
  "map_of fs ''phone_number'' = None \<Longrightarrow> handleSubmit w botId ''activate'' fs = Inl TypeError"
  "map_of fs ''phone_number'' = Some p \<Longrightarrow> \<not> requiredEmpty (numberToString w) p \<Longrightarrow>
   map_of fs ''whatsapp'' = None \<Longrightarrow> handleSubmit w botId ''activate'' fs = Inl TypeError"
  by (simp_all add: handleSubmit_def)

subsection \<open>Other mode tags\<close>

text \<open>
  C10. For every mode tag other than \<^verbatim>\<open>credentials\<close>, \<^verbatim>\<open>activate\<close> and
  \<^verbatim>\<open>install\<close>, \<^verbatim>\<open>handleSubmit\<close> validates nothing and is not rejected: it
  posts the empty object to the empty endpoint with no access token, and calls the close
  callback when that request succeeds.
\<close>

theorem unknown_mode:
  assumes "modelType \<noteq> ''credentials''" and "modelType \<noteq> ''activate''"
    and "modelType \<noteq> ''install''"
  shows "handleSubmit w botId modelType fs =
         Inr (SendRequest
                \<lparr>url = [], method' = ''POST'', accessToken = None, body = JObject [],
                 headers = [(''Content-Type'', ''application/json'')]\<rparr> #
              (case sendRequest w
                      \<lparr>url = [], method' = ''POST'', accessToken = None, body = JObject [],
                       headers = [(''Content-Type'', ''application/json'')]\<rparr> of
                 Inr u \<Rightarrow> [OnClose]
               | Inl e \<Rightarrow> [Alert (serverMessage e), ConsoleError ''Error saving settings:'' e]))"
  using assms by (simp add: handleSubmit_def post_def postRequest_def split: sum.splits)

theorem unknown_mode_witness:
  "handleSubmit demoWorld (Some ''bot1'') ''configure''
     [(''api_key'', field (VString []) TString True)] =
   Inr [SendRequest
          \<lparr>url = [], method' = ''POST'', accessToken = None, body = JObject [],
           headers = [(''Content-Type'', ''application/json'')]\<rparr>,
        OnClose]"
  using unknown_mode [of "''configure''" demoWorld "Some ''bot1''"
      "[(''api_key'', field (VString []) TString True)]"]
  by (simp add: evaluation)

subsection \<open>The collaborators\<close>

text \<open>
  C6. In install mode \<^verbatim>\<open>handleSubmit\<close> calls the secret-fetch collaborator before
  anything else. When that fails, for every Field Set, it logs the error, alerts
  \<^verbatim>\<open>Failed to fetch the access token\<close> and returns: no field is checked and no request
  is sent. In every mode, a request that carries an access token is the install request
  after a fetch that gave that token.
\<close>

theorem install_fetch_first:
  "(\<exists>rest. handleSubmit w botId ''install'' fs = Inr (FetchSecret # rest))
   \<and> (\<forall>e. fetchSecret w = Inl e \<longrightarrow>
          handleSubmit w botId ''install'' fs =
          Inr [FetchSecret, ConsoleError ''Failed to fetch the access token:'' e,
               Alert ''Failed to fetch the access token''])
   \<and> (\<forall>tr req token. handleSubmit w botId modelType fs = Inr tr \<longrightarrow>
          SendRequest req \<in> set tr \<longrightarrow> accessToken req = Some token \<longrightarrow>
          modelType = ''install'' \<and> fetchSecret w = Inr token)"
proof (intro conjI allI impI)
  show "\<exists>rest. handleSubmit w botId ''install'' fs = Inr (FetchSecret # rest)"
    by (simp add: handleSubmit_def split: sum.splits)
next
  fix e assume "fetchSecret w = Inl e"
  then show "handleSubmit w botId ''install'' fs =
          Inr [FetchSecret, ConsoleError ''Failed to fetch the access token:'' e,
               Alert ''Failed to fetch the access token'']"
    by (simp add: handleSubmit_def)
next
  fix tr req token
  assume run: "handleSubmit w botId modelType fs = Inr tr"
    and sent: "SendRequest req \<in> set tr" and tok: "accessToken req = Some token"
  from handleSubmit_traces [OF run] sent
  consider (plain) u d where "tr = post w u None d"
    | (install) t u d where "modelType = ''install''" "fetchSecret w = Inr t"
        "tr = FetchSecret # post w u (Some t) d"
    by auto
  then have "modelType = ''install'' \<and> fetchSecret w = Inr token"
  proof cases
    case plain
    with sent have "req = postRequest u None d" by (auto dest: post_sent)
    with tok show ?thesis by (simp add: postRequest_def)
  next
    case install
    with sent have "req = postRequest u (Some t) d" by (auto dest: post_sent)
    with tok install show ?thesis by (simp add: postRequest_def)
  qed
  then show "modelType = ''install''" and "fetchSecret w = Inr token" by simp_all
qed

theorem install_fetch_first_witness:
  "handleSubmit offlineWorld None ''install'' [(''name'', field (VString []) TString True)] =
     Inr [FetchSecret, ConsoleError ''Failed to fetch the access token:'' (Thrown None),
          Alert ''Failed to fetch the access token'']
   \<and> handleSubmit demoWorld None ''install'' [(''name'', field (VString ''bot'') TString True)] =
     Inr [FetchSecret,
          SendRequest
            \<lparr>url = ''http://localhost:8000/v1/bot/install'', method' = ''POST'',
             accessToken = Some ''secret-token'',
             body = JObject [(''name'', JString ''bot'')],
             headers = [(''Content-Type'', ''application/json'')]\<rparr>,
          OnClose]"
proof -
  have "fetchSecret offlineWorld = Inl (Thrown None)"
    by (simp add: offlineWorld_def)
  with install_fetch_first [of offlineWorld None "[(''name'', field (VString []) TString True)]"]
  have "handleSubmit offlineWorld None ''install'' [(''name'', field (VString []) TString True)] =
     Inr [FetchSecret, ConsoleError ''Failed to fetch the access token:'' (Thrown None),
          Alert ''Failed to fetch the access token'']"
    by blast
  then show ?thesis
    by (simp add: run)
qed

text \<open>
  C7. For every run that reaches the network call: when the request succeeds, the close
  callback is called exactly once; when it fails, the close callback is not called and the
  user is alerted with \<^const>\<open>serverMessage\<close>, the text
  \<^verbatim>\<open>Error from server "<detail>". Please try again.\<close> around the server's detail
  (\<^verbatim>\<open>undefined\<close> when there is none).
\<close>

theorem close_callback:
  assumes "handleSubmit w botId modelType fs = Inr tr" and "SendRequest req \<in> set tr"
  shows "case sendRequest w req of
           Inr u \<Rightarrow> count_list tr OnClose = 1
         | Inl e \<Rightarrow> OnClose \<notin> set tr \<and> Alert (serverMessage e) \<in> set tr"
proof -
  from handleSubmit_traces [OF assms(1)] assms(2)
  consider (plain) u d where "tr = post w u None d"
    | (install) token u d where "tr = FetchSecret # post w u (Some token) d"
    by auto
  then show ?thesis
  proof cases
    case plain
    with assms(2) have req: "req = postRequest u None d"
      by (auto dest: post_sent)
    show ?thesis
    proof (cases "sendRequest w req")
      case (Inl e)
      with plain req show ?thesis by (simp add: post_rejected)
    next
      case (Inr x)
      with plain req show ?thesis by (simp add: post_fulfilled)
    qed
  next
    case install
    with assms(2) have req: "req = postRequest u (Some token) d"
      by (auto dest: post_sent)
    show ?thesis
    proof (cases "sendRequest w req")
      case (Inl e)
      with install req show ?thesis by (simp add: post_rejected)
    next
      case (Inr x)
      with install req show ?thesis by (simp add: post_fulfilled)
    qed
  qed
qed

theorem close_callback_witness:
  "handleSubmit demoWorld (Some ''bot1'') ''credentials'' credentialFields =
     Inr [SendRequest configureRequest, OnClose]
   \<and> count_list [SendRequest configureRequest, OnClose] OnClose = 1
   \<and> handleSubmit offlineWorld (Some ''bot1'') ''credentials'' credentialFields =
     Inr [SendRequest configureRequest,
          Alert (''Error from server '' @ [CHR 0x22] @ ''Bot not found'' @ [CHR 0x22] @
                 ''. Please try again.''),
          ConsoleError ''Error saving settings:'' (Thrown (Some ''Bot not found''))]"
proof -
  have ok: "handleSubmit demoWorld (Some ''bot1'') ''credentials'' credentialFields =
     Inr [SendRequest configureRequest, OnClose]"
    by (simp add: run credentialFields_def configureRequest_def)
  have failed: "handleSubmit offlineWorld (Some ''bot1'') ''credentials'' credentialFields =
     Inr [SendRequest configureRequest,
          Alert (''Error from server '' @ [CHR 0x22] @ ''Bot not found'' @ [CHR 0x22] @
                 ''. Please try again.''),
          ConsoleError ''Error saving settings:'' (Thrown (Some ''Bot not found''))]"
    by (simp add: run credentialFields_def configureRequest_def)
  have "count_list [SendRequest configureRequest, OnClose] OnClose = 1"
    using close_callback [OF ok, of configureRequest] by (simp add: demoWorld_def)
  with ok failed show ?thesis by simp
qed

subsection \<open>The required-field check\<close>

text \<open>
  A Field Set with a required field left blank is not always stopped: in activate mode
  only \<^verbatim>\<open>phone_number\<close> and \<^verbatim>\<open>whatsapp\<close> are checked, and the blank required
  field \<^verbatim>\<open>note\<close> below goes unnoticed while the request is sent.
\<close>

theorem unchecked_field_is_posted:
  "requiredEmpty (numberToString demoWorld) (field (VString ''  '') TString True)
   \<and> handleSubmit demoWorld (Some ''bot1'') ''activate''
       [(''phone_number'', field (VString ''123'') TString True),
        (''whatsapp'', field (VString ''key1'') TString True),
        (''note'', field (VString ''  '') TString True)] =
     Inr [SendRequest
            \<lparr>url = ''http://localhost:8000/v1/bot/bot1/activate'', method' = ''POST'',
             accessToken = None,
             body = JObject [(''phone_number'', JString ''123''),
                             (''channels'', JObject [(''whatsapp'', JString ''key1'')])],
             headers = [(''Content-Type'', ''application/json'')]\<rparr>,
          OnClose]"
  by (simp add: run)

text \<open>
  C2, as the code has it. In credentials mode, and in install mode once the access token is
  fetched, a Field Set with a required field whose stringified value trims to the empty
  string makes \<^verbatim>\<open>handleSubmit\<close> alert \<^verbatim>\<open><key> is required\<close> for the first such
  field in enumeration order and return with no request sent. In activate mode the same
  holds for \<^verbatim>\<open>phone_number\<close> and then \<^verbatim>\<open>whatsapp\<close>, with the messages
  \<^verbatim>\<open>Phone number is required\<close> and \<^verbatim>\<open>Whatsapp Key is required\<close>; no other
  field is checked there.
\<close>

theorem required_empty_aborts:
  "(\<forall>key d. find (\<lambda>(k, x). requiredEmpty (numberToString w) x) fs = Some (key, d) \<longrightarrow>
       handleSubmit w botId ''credentials'' fs = Inr [Alert (key @ '' is required'')]
     \<and> (\<forall>token. fetchSecret w = Inr token \<longrightarrow>
           handleSubmit w botId ''install'' fs = Inr [FetchSecret, Alert (key @ '' is required'')]))
   \<and> (\<forall>p. map_of fs ''phone_number'' = Some p \<longrightarrow> requiredEmpty (numberToString w) p \<longrightarrow>
         handleSubmit w botId ''activate'' fs = Inr [Alert ''Phone number is required''])
   \<and> (\<forall>p wa. map_of fs ''phone_number'' = Some p \<longrightarrow> \<not> requiredEmpty (numberToString w) p \<longrightarrow>
         map_of fs ''whatsapp'' = Some wa \<longrightarrow> requiredEmpty (numberToString w) wa \<longrightarrow>
         handleSubmit w botId ''activate'' fs = Inr [Alert ''Whatsapp Key is required''])"
proof (intro conjI allI impI)
  fix key d
  assume "find (\<lambda>(k, x). requiredEmpty (numberToString w) x) fs = Some (key, d)"
  then show "handleSubmit w botId ''credentials'' fs = Inr [Alert (key @ '' is required'')]"
    by (simp add: handleSubmit_def credentialsLoop_abort)
next
  fix key d token
  assume "find (\<lambda>(k, x). requiredEmpty (numberToString w) x) fs = Some (key, d)"
    and "fetchSecret w = Inr token"
  then show "handleSubmit w botId ''install'' fs = Inr [FetchSecret, Alert (key @ '' is required'')]"
    by (simp add: handleSubmit_def installLoop_abort)
next
  fix p
  assume "map_of fs ''phone_number'' = Some p" and "requiredEmpty (numberToString w) p"
  then show "handleSubmit w botId ''activate'' fs = Inr [Alert ''Phone number is required'']"
    by (simp add: handleSubmit_def)
next
  fix p wa
  assume "map_of fs ''phone_number'' = Some p" and "\<not> requiredEmpty (numberToString w) p"
    and "map_of fs ''whatsapp'' = Some wa" and "requiredEmpty (numberToString w) wa"
  then show "handleSubmit w botId ''activate'' fs = Inr [Alert ''Whatsapp Key is required'']"
    by (simp add: handleSubmit_def)
qed

theorem required_empty_aborts_witness:
  "handleSubmit demoWorld (Some ''bot1'') ''credentials''
     [(''api_key'', field (VString ''x'') TString True),
      (''region'', field (VString ''  '') TString True),
      (''zone'', field (VString []) TString True)] = Inr [Alert ''region is required'']
   \<and> handleSubmit demoWorld (Some ''bot1'') ''install''
     [(''api_key'', field (VString ''x'') TString True),
      (''region'', field (VString ''  '') TString True),
      (''zone'', field (VString []) TString True)] = Inr [FetchSecret, Alert ''region is required'']
   \<and> handleSubmit demoWorld (Some ''bot1'') ''activate''
     [(''phone_number'', field (VString '' '') TString True),
      (''whatsapp'', field (VString []) TString True)] = Inr [Alert ''Phone number is required'']
   \<and> handleSubmit demoWorld (Some ''bot1'') ''activate''
     [(''phone_number'', field (VString ''123'') TString True),
      (''whatsapp'', field (VString []) TString True)] = Inr [Alert ''Whatsapp Key is required'']"
proof -
  let ?fs = "[(''api_key'', field (VString ''x'') TString True),
      (''region'', field (VString ''  '') TString True),
      (''zone'', field (VString []) TString True)] :: int fieldSet"
  have first: "find (\<lambda>(k, x). requiredEmpty (numberToString demoWorld) x) ?fs =
      Some (''region'', field (VString ''  '') TString True)"
    by (simp add: evaluation)
  have token: "fetchSecret demoWorld = Inr ''secret-token''"
    by (simp add: demoWorld_def)
  from required_empty_aborts [of demoWorld ?fs "Some ''bot1''"] first token
  have "handleSubmit demoWorld (Some ''bot1'') ''credentials'' ?fs = Inr [Alert ''region is required'']"
    and "handleSubmit demoWorld (Some ''bot1'') ''install'' ?fs = Inr [FetchSecret, Alert ''region is required'']"
    by auto
  then show ?thesis
    by (simp add: run)
qed

text \<open>
  A required field holding \<^verbatim>\<open>false\<close> or \<^verbatim>\<open>0\<close> does not stop the submission:
  both values are posted.
\<close>

theorem false_and_zero_are_posted:
  "handleSubmit demoWorld (Some ''bot1'') ''credentials''
     [(''enabled'', field (VBoolean False) TBoolean True),
      (''retries'', field (VNumber 0) TNumber True)] =
   Inr [SendRequest
          \<lparr>url = ''http://localhost:8000/v1/bot/bot1/configure'', method' = ''POST'',
           accessToken = None,
           body = JObject [(''credentials'',
                    JObject [(''enabled'', JBoolean False), (''retries'', JNumber 0)])],
           headers = [(''Content-Type'', ''application/json'')]\<rparr>,
        OnClose]"
  by (simp add: run showInt_def showNat.simps digit_def)

text \<open>
  C9, as the code has it. The check is on the text of the value, not on its truthiness:
  in credentials mode, and in install mode once the access token is fetched, the submission
  stops with a validation alert exactly when some required field has a stringified value
  that trims to the empty string. A boolean never does (\<^verbatim>\<open>false\<close> reads
  \<^verbatim>\<open>"false"\<close>), and a number does only if its text is blank (\<^verbatim>\<open>0\<close> reads
  \<^verbatim>\<open>"0"\<close>).
\<close>

theorem required_check_is_emptiness:
  "((\<exists>message. handleSubmit w botId ''credentials'' fs = Inr [Alert message]) =
      (\<exists>(k, x)\<in>set fs. required x = Some True \<and>
                         trim (toString (numberToString w) (value' x)) = []))
   \<and> (\<forall>token. fetchSecret w = Inr token \<longrightarrow>
        ((\<exists>message. handleSubmit w botId ''install'' fs = Inr [FetchSecret, Alert message]) =
         (\<exists>(k, x)\<in>set fs. required x = Some True \<and>
                            trim (toString (numberToString w) (value' x)) = [])))
   \<and> (\<forall>x b. value' x = VBoolean b \<longrightarrow> \<not> requiredEmpty (numberToString w) x)"
proof (intro conjI allI impI)
  let ?ns = "numberToString w"
  let ?empty = "\<exists>(k, x)\<in>set fs. required x = Some True \<and> trim (toString ?ns (value' x)) = []"
  show "(\<exists>message. handleSubmit w botId ''credentials'' fs = Inr [Alert message]) = ?empty"
  proof (cases "find (\<lambda>(k, x). requiredEmpty ?ns x) fs")
    case None
    then obtain c where "credentialsLoop ?ns fs [] = Inr c"
      using credentialsLoop_passes by blast
    then have "\<not> (\<exists>message. handleSubmit w botId ''credentials'' fs = Inr [Alert message])"
      by (simp add: handleSubmit_def post_not_alert)
    with None show ?thesis
      by (simp add: find_requiredEmpty_None)
  next
    case (Some e)
    obtain key d where e: "e = (key, d)" by (cases e)
    from Some have "handleSubmit w botId ''credentials'' fs = Inr [Alert (key @ '' is required'')]"
      by (simp add: e handleSubmit_def credentialsLoop_abort)
    moreover from Some have "find (\<lambda>(k, x). requiredEmpty ?ns x) fs \<noteq> None"
      by simp
    then have ?empty
      by (simp add: find_requiredEmpty_None)
    ultimately show ?thesis by blast
  qed
  fix token
  assume token: "fetchSecret w = Inr token"
  show "(\<exists>message. handleSubmit w botId ''install'' fs = Inr [FetchSecret, Alert message]) = ?empty"
  proof (cases "find (\<lambda>(k, x). requiredEmpty ?ns x) fs")
    case None
    then obtain c where "installLoop ?ns fs [] = Inr c"
      using installLoop_passes by blast
    with token
    have "\<not> (\<exists>message. handleSubmit w botId ''install'' fs = Inr [FetchSecret, Alert message])"
      by (simp add: handleSubmit_def post_not_alert)
    with None show ?thesis
      by (simp add: find_requiredEmpty_None)
  next
    case (Some e)
    obtain key d where e: "e = (key, d)" by (cases e)
    from Some token
    have "handleSubmit w botId ''install'' fs = Inr [FetchSecret, Alert (key @ '' is required'')]"
      by (simp add: e handleSubmit_def installLoop_abort)
    moreover from Some have "find (\<lambda>(k, x). requiredEmpty ?ns x) fs \<noteq> None"
      by simp
    then have ?empty
      by (simp add: find_requiredEmpty_None)
    ultimately show ?thesis by blast
  qed
next
  fix x :: "'a InputConfig" and b
  assume "value' x = VBoolean b"
  then show "\<not> requiredEmpty (numberToString w) x"
    using trim_boolean [of "numberToString w" b] by (simp add: requiredEmpty_def)
qed

theorem required_check_is_emptiness_witness:
  "handleSubmit demoWorld (Some ''bot1'') ''credentials''
     [(''enabled'', field (VBoolean False) TBoolean True),
      (''api_key'', field (VString '' '') TString True)] = Inr [Alert ''api_key is required'']
   \<and> trim (toString showInt (VBoolean False)) = ''false''
   \<and> trim (toString showInt (VNumber 0)) = ''0''"
  using required_check_is_emptiness [of demoWorld "Some ''bot1''"
      "[(''enabled'', field (VBoolean False) TBoolean True),
        (''api_key'', field (VString '' '') TString True)]"]
  by (simp add: run showInt_def showNat.simps digit_def)

end
